theory Spec2Isabelle
  imports Main "HOL-Library.Word"
begin

section \<open>Strings and pointers of the Go source\<close>

text \<open>
  Go strings are byte sequences; they are modelled as \<^typ>\<open>string\<close>. A Go pointer
  \<^verbatim>\<open>*T\<close> is an \<^typ>\<open>'a option\<close> with \<^term>\<open>None\<close> for \<^verbatim>\<open>nil\<close>;
  \<^verbatim>\<open>ptr.To(x)\<close> is \<^term>\<open>Some x\<close> and \<^verbatim>\<open>ptr.Deref(p, d)\<close> is \<open>Deref p d\<close>.
\<close>

definition Deref :: "'a option \<Rightarrow> 'a \<Rightarrow> 'a" where
  "Deref p d = (case p of None \<Rightarrow> d | Some v \<Rightarrow> v)"

text \<open>
  \<^verbatim>\<open>strings.EqualFold\<close> belongs to the Go standard library: it compares two strings
  under simple Unicode case folding. It is the parameter \<open>eqFold\<close> of \<^verbatim>\<open>ruleExists\<close>
  and of everything built on it, so the general statements hold for the library
  function whatever it returns. \<open>EqualFoldASCII\<close> is that function on ASCII strings,
  which is what Azure accepts for rule names, port ranges and address prefixes:
  equality after mapping \<^verbatim>\<open>A-Z\<close> to \<^verbatim>\<open>a-z\<close>. It instantiates \<open>eqFold\<close> only where a
  statement is evaluated on concrete ASCII rules.
\<close>

definition toLower :: "char \<Rightarrow> char" where
  "toLower c =
     (case map_of (zip ''ABCDEFGHIJKLMNOPQRSTUVWXYZ'' ''abcdefghijklmnopqrstuvwxyz'') c of
        Some l \<Rightarrow> l
      | None \<Rightarrow> c)"

definition EqualFoldASCII :: "string \<Rightarrow> string \<Rightarrow> bool" where
  "EqualFoldASCII s t = (map toLower s = map toLower t)"

section \<open>Data model of the security group service\<close>

text \<open>
  \<^verbatim>\<open>infrav1.SecurityRule\<close>: the desired rule as the cluster object declares it. The
  type is declared in package \<^verbatim>\<open>api/v1beta1\<close>; these are the fields the test data of
  \<^verbatim>\<open>spec_test.go\<close> set. Protocol and direction are string-typed enumerations.
\<close>

record SecurityRule =
  sr_Name :: string
  sr_Description :: string
  sr_Protocol :: string
  sr_Direction :: string
  sr_Priority :: "32 word"
  sr_Source :: "string option"
  sr_SourcePorts :: "string option"
  sr_Destination :: "string option"
  sr_DestinationPorts :: "string option"

definition SecurityGroupProtocolAll :: string where "SecurityGroupProtocolAll = ''*''"
definition SecurityGroupProtocolTCP :: string where "SecurityGroupProtocolTCP = ''Tcp''"
definition SecurityGroupProtocolUDP :: string where "SecurityGroupProtocolUDP = ''Udp''"
definition SecurityGroupProtocolICMP :: string where "SecurityGroupProtocolICMP = ''Icmp''"

text \<open>
  \<^verbatim>\<open>network.SecurityRule\<close> of the Azure SDK: the rule as the remote API holds it. The
  SDK embeds a pointer to \<^verbatim>\<open>SecurityRulePropertiesFormat\<close>, so reading
  \<^verbatim>\<open>rule.Protocol\<close> dereferences that pointer and panics when it is nil.
  \<^verbatim>\<open>Protocol\<close>, \<^verbatim>\<open>Access\<close> and \<^verbatim>\<open>Direction\<close> are string-typed enumerations
  compared with \<^verbatim>\<open>!=\<close>.
\<close>

record SecurityRulePropertiesFormat =
  Description :: "string option"
  Protocol :: string
  SourcePortRange :: "string option"
  DestinationPortRange :: "string option"
  SourceAddressPrefix :: "string option"
  DestinationAddressPrefix :: "string option"
  Access :: string
  Priority :: "32 word option"
  Direction :: string
  ProvisioningState :: string

record sdk_SecurityRule =
  Properties :: "SecurityRulePropertiesFormat option"
  Name :: "string option"
  Etag :: "string option"
  ID :: "string option"

definition SecurityRuleProtocolTCP :: string where "SecurityRuleProtocolTCP = ''Tcp''"
definition SecurityRuleProtocolUDP :: string where "SecurityRuleProtocolUDP = ''Udp''"
definition SecurityRuleProtocolIcmp :: string where "SecurityRuleProtocolIcmp = ''Icmp''"
definition SecurityRuleProtocolAsterisk :: string where "SecurityRuleProtocolAsterisk = ''*''"
definition SecurityRuleAccessAllow :: string where "SecurityRuleAccessAllow = ''Allow''"
definition SecurityRuleAccessDeny :: string where "SecurityRuleAccessDeny = ''Deny''"
definition SecurityRuleDirectionInbound :: string where "SecurityRuleDirectionInbound = ''Inbound''"
definition SecurityRuleDirectionOutbound :: string where "SecurityRuleDirectionOutbound = ''Outbound''"

text \<open>
  \<^verbatim>\<open>network.SecurityGroup\<close>, again with an embedded pointer to its properties, whose
  \<^verbatim>\<open>SecurityRules\<close> is itself a pointer to a slice. \<^verbatim>\<open>Tags\<close> is a
  \<^verbatim>\<open>map[string]*string\<close>.
\<close>

record SecurityGroupPropertiesFormat =
  pf_SecurityRules :: "sdk_SecurityRule list option"
  pf_DefaultSecurityRules :: "sdk_SecurityRule list option"
  pf_ProvisioningState :: string

record SecurityGroup =
  sg_Properties :: "SecurityGroupPropertiesFormat option"
  sg_Etag :: "string option"
  sg_ID :: "string option"
  sg_Name :: "string option"
  sg_Location :: "string option"
  sg_Tags :: "string \<rightharpoonup> string option"

text \<open>
  \<^verbatim>\<open>existing interface{}\<close>: nil, a \<^verbatim>\<open>network.SecurityGroup\<close>, or a value of another
  dynamic type (named by what \<^verbatim>\<open>%T\<close> prints), on which the type assertion fails.
\<close>

datatype existing_value = IsSecurityGroup SecurityGroup | OtherType string

text \<open>
  \<^verbatim>\<open>infrav1.Tags\<close> is a \<^verbatim>\<open>map[string]string\<close>; \<^verbatim>\<open>infrav1.BuildParams\<close> is the
  argument of \<^verbatim>\<open>infrav1.Build\<close>.
\<close>

type_synonym Tags = "string \<rightharpoonup> string"

record BuildParams =
  bp_ClusterName :: string
  bp_Lifecycle :: string
  bp_Name :: "string option"
  bp_Role :: "string option"
  bp_Additional :: Tags

definition ResourceLifecycleOwned :: string where "ResourceLifecycleOwned = ''owned''"

text \<open>
  \<^verbatim>\<open>NSGSpec\<close> of \<^verbatim>\<open>securitygroups/spec.go\<close>. \<^verbatim>\<open>LastAppliedSecurityRules\<close> is a
  \<^verbatim>\<open>map[string]interface{}\<close> of which the code reads only the keys, so its value type
  is left open.
\<close>

record 'v NSGSpec =
  spec_Name :: string
  SecurityRules :: "SecurityRule list"
  spec_Location :: string
  ClusterName :: string
  ResourceGroup :: string
  AdditionalTags :: Tags
  LastAppliedSecurityRules :: "string \<rightharpoonup> 'v"

text \<open>
  What a call can end in besides a value: the error \<^verbatim>\<open>Parameters\<close> returns for a wrong
  dynamic type, and the run-time panic of a nil pointer dereference.
\<close>

datatype error = NotASecurityGroup string | NilPointerDereference

section \<open>The semantic-equality test\<close>

text \<open>
  \<^verbatim>\<open>ruleExists\<close> (spec.go, lines 122-143), with \<^verbatim>\<open>strings.EqualFold\<close> as the
  parameter \<open>eqFold\<close>. The loop runs over the observed rules; each \<^verbatim>\<open>continue\<close> is
  the recursive call on the rest. The name is a field of the rule
  itself; every other field read goes through the embedded properties pointer of the
  observed rule or of the wanted rule.
\<close>

fun ruleExists ::
  "(string \<Rightarrow> string \<Rightarrow> bool) \<Rightarrow> sdk_SecurityRule list \<Rightarrow> sdk_SecurityRule \<Rightarrow>
   error + bool" where
  "ruleExists eqFold [] rule = Inr False"
| "ruleExists eqFold (existingRule # rules) rule =
     (if \<not> eqFold (Deref (Name existingRule) '''') (Deref (Name rule) '''')
      then ruleExists eqFold rules rule
      else
        (case Properties existingRule of
           None \<Rightarrow> Inl NilPointerDereference
         | Some e \<Rightarrow>
             (case Properties rule of
                None \<Rightarrow> Inl NilPointerDereference
              | Some r \<Rightarrow>
                  if \<not> eqFold (Deref (DestinationPortRange e) '''')
                         (Deref (DestinationPortRange r) '''')
                  then ruleExists eqFold rules rule
                  else if Protocol e \<noteq> SecurityRuleProtocolTCP \<and>
                          Access e \<noteq> SecurityRuleAccessAllow \<and>
                          Direction e \<noteq> SecurityRuleDirectionInbound
                  then ruleExists eqFold rules rule
                  else if \<not> eqFold (Deref (SourcePortRange e) '''') ''*'' \<and>
                          \<not> eqFold (Deref (SourceAddressPrefix e) '''') ''*'' \<and>
                          \<not> eqFold (Deref (DestinationAddressPrefix e) '''') ''*''
                  then ruleExists eqFold rules rule
                  else Inr True)))"

section \<open>The diff of a security group\<close>

text \<open>
  The first loop of \<^verbatim>\<open>Parameters\<close> (spec.go, lines 73-80), over the desired rules.
  The loop state is \<^verbatim>\<open>update\<close>, \<^verbatim>\<open>securityRules\<close> and \<^verbatim>\<open>newAnnotation\<close>.
  The converter \<^verbatim>\<open>converters.SecurityRuleToSDK\<close> belongs to another package
  and is the parameter \<open>toSDK\<close>.
\<close>

fun desiredLoop ::
  "(string \<Rightarrow> string \<Rightarrow> bool) \<Rightarrow> (SecurityRule \<Rightarrow> sdk_SecurityRule) \<Rightarrow> sdk_SecurityRule list \<Rightarrow> SecurityRule list \<Rightarrow>
   bool \<times> sdk_SecurityRule list \<times> (string \<rightharpoonup> string) \<Rightarrow>
   error + bool \<times> sdk_SecurityRule list \<times> (string \<rightharpoonup> string)" where
  "desiredLoop eqFold toSDK existingRules [] st = Inr st"
| "desiredLoop eqFold toSDK existingRules (rule # rest) (update, securityRules, newAnnotation) =
     (let sdkRule = toSDK rule in
      case ruleExists eqFold existingRules sdkRule of
        Inl e \<Rightarrow> Inl e
      | Inr found \<Rightarrow>
          desiredLoop eqFold toSDK existingRules rest
            (if \<not> found
             then (True, securityRules @ [sdkRule],
                   newAnnotation(sr_Name rule \<mapsto> sr_Description rule))
             else (update, securityRules,
                   newAnnotation(sr_Name rule \<mapsto> sr_Description rule))))"

text \<open>
  The second loop (lines 82-93), over the observed rules. \<^verbatim>\<open>*oldRule.Name\<close> panics on
  a rule without a name. A rule that is tracked in \<^verbatim>\<open>LastAppliedSecurityRules\<close> and
  whose name is no key of \<^verbatim>\<open>newAnnotation\<close> is dropped; every other rule is appended.
\<close>

fun observedLoop ::
  "(string \<rightharpoonup> 'v) \<Rightarrow> (string \<rightharpoonup> string) \<Rightarrow> sdk_SecurityRule list \<Rightarrow>
   bool \<times> sdk_SecurityRule list \<Rightarrow> error + bool \<times> sdk_SecurityRule list" where
  "observedLoop lastApplied newAnnotation [] st = Inr st"
| "observedLoop lastApplied newAnnotation (oldRule # rest) (update, securityRules) =
     (case Name oldRule of
        None \<Rightarrow> Inl NilPointerDereference
      | Some n \<Rightarrow>
          (let tracked = (lastApplied n \<noteq> None) in
           if newAnnotation n = None \<and> tracked
           then observedLoop lastApplied newAnnotation rest (True, securityRules)
           else observedLoop lastApplied newAnnotation rest
                  (update, securityRules @ [oldRule])))"

text \<open>
  The value returned at the end of \<^verbatim>\<open>Parameters\<close> (lines 106-118). \<^verbatim>\<open>infrav1.Build\<close>
  and \<^verbatim>\<open>converters.TagsToMap\<close> belong to other packages and are the
  parameters \<open>build\<close> and \<open>tagsToMap\<close>. Fields the composite literal does not set are
  nil or empty.
\<close>

definition payload ::
  "(BuildParams \<Rightarrow> Tags) \<Rightarrow> (Tags \<Rightarrow> (string \<rightharpoonup> string option)) \<Rightarrow> 'v NSGSpec \<Rightarrow>
   sdk_SecurityRule list \<Rightarrow> string option \<Rightarrow> SecurityGroup" where
  "payload build tagsToMap s securityRules etag =
     \<lparr> sg_Properties = Some \<lparr> pf_SecurityRules = Some securityRules,
                               pf_DefaultSecurityRules = None,
                               pf_ProvisioningState = '''' \<rparr>,
       sg_Etag = etag,
       sg_ID = None,
       sg_Name = None,
       sg_Location = Some (spec_Location s),
       sg_Tags = tagsToMap (build \<lparr> bp_ClusterName = ClusterName s,
                                     bp_Lifecycle = ResourceLifecycleOwned,
                                     bp_Name = Some (spec_Name s),
                                     bp_Role = None,
                                     bp_Additional = AdditionalTags s \<rparr>) \<rparr>"

text \<open>
  \<^verbatim>\<open>*existingNSG.SecurityRules\<close>: both the embedded properties pointer and the slice
  pointer are dereferenced.
\<close>

definition existingSecurityRules :: "SecurityGroup \<Rightarrow> error + sdk_SecurityRule list" where
  "existingSecurityRules existingNSG =
     (case sg_Properties existingNSG of
        None \<Rightarrow> Inl NilPointerDereference
      | Some pf \<Rightarrow>
          (case pf_SecurityRules pf of
             None \<Rightarrow> Inl NilPointerDereference
           | Some rules \<Rightarrow> Inr rules))"

text \<open>
  \<^verbatim>\<open>NSGSpec.Parameters\<close> (lines 57-119). The Go result pair is \<open>Inl e\<close> for
  \<^verbatim>\<open>(nil, err)\<close> and for a panic, \<open>Inr None\<close> for \<^verbatim>\<open>(nil, nil)\<close> and
  \<open>Inr (Some p)\<close> for \<^verbatim>\<open>(p, nil)\<close>. The slice pointer is dereferenced in the first
  loop when there is a desired rule and in the range clause of the second loop
  otherwise, so a nil pointer panics in either case.
\<close>

definition Parameters ::
  "(string \<Rightarrow> string \<Rightarrow> bool) \<Rightarrow> (SecurityRule \<Rightarrow> sdk_SecurityRule) \<Rightarrow> (BuildParams \<Rightarrow> Tags) \<Rightarrow>
   (Tags \<Rightarrow> (string \<rightharpoonup> string option)) \<Rightarrow> 'v NSGSpec \<Rightarrow> existing_value option \<Rightarrow>
   error + SecurityGroup option" where
  "Parameters eqFold toSDK build tagsToMap s existing =
     (case existing of
        Some (OtherType tn) \<Rightarrow> Inl (NotASecurityGroup tn)
      | Some (IsSecurityGroup existingNSG) \<Rightarrow>
          (case existingSecurityRules existingNSG of
             Inl e \<Rightarrow> Inl e
           | Inr existingRules \<Rightarrow>
               (case desiredLoop eqFold toSDK existingRules (SecurityRules s) (False, [], Map.empty) of
                  Inl e \<Rightarrow> Inl e
                | Inr (update, securityRules, newAnnotation) \<Rightarrow>
                    (case observedLoop (LastAppliedSecurityRules s) newAnnotation existingRules
                            (update, securityRules) of
                       Inl e \<Rightarrow> Inl e
                     | Inr (update', securityRules') \<Rightarrow>
                         if \<not> update' then Inr None
                         else Inr (Some (payload build tagsToMap s securityRules'
                                           (sg_Etag existingNSG))))))
      | None \<Rightarrow>
          Inr (Some (payload build tagsToMap s (map toSDK (SecurityRules s)) None)))"

text \<open>
  The two decisions of the loops, named for the statements below: \<open>missing\<close> is the
  negated \<^verbatim>\<open>ruleExists\<close> test of the first loop, \<open>retracted\<close> the deletion test of
  the second.
\<close>

definition missing ::
  "(string \<Rightarrow> string \<Rightarrow> bool) \<Rightarrow> (SecurityRule \<Rightarrow> sdk_SecurityRule) \<Rightarrow> sdk_SecurityRule list \<Rightarrow> SecurityRule \<Rightarrow> bool" where
  "missing eqFold toSDK existingRules rule = (ruleExists eqFold existingRules (toSDK rule) = Inr False)"

definition retracted ::
  "(string \<rightharpoonup> 'v) \<Rightarrow> (string \<rightharpoonup> string) \<Rightarrow> sdk_SecurityRule \<Rightarrow> bool" where
  "retracted lastApplied newAnnotation oldRule =
     (case Name oldRule of
        None \<Rightarrow> False
      | Some n \<Rightarrow> newAnnotation n = None \<and> lastApplied n \<noteq> None)"

text \<open>The rules carried by a result of \<^verbatim>\<open>Parameters\<close>; none when there is no payload.\<close>

definition payloadRules :: "error + SecurityGroup option \<Rightarrow> sdk_SecurityRule list" where
  "payloadRules res =
     (case res of
        Inr (Some p) \<Rightarrow> (case existingSecurityRules p of Inr rules \<Rightarrow> rules | Inl e \<Rightarrow> [])
      | _ \<Rightarrow> [])"

section \<open>Collaborators of the security group diff\<close>

text \<open>
  Modelled from the spec: the source of \<^verbatim>\<open>converters.SecurityRuleToSDK\<close> is missing;
  the spec only calls its result the SDK conversion of a desired rule.
  This model copies each field of the desired rule to the SDK field of the same
  meaning, maps protocol and direction constant by constant and sets the access
  decision to Allow. It only instantiates the parameter \<open>toSDK\<close> where a statement is
  evaluated on concrete rules; the general statements hold for every converter.
\<close>

definition SecurityRuleDirectionInbound_infra :: string where
  "SecurityRuleDirectionInbound_infra = ''Inbound''"

definition SecurityRuleDirectionOutbound_infra :: string where
  "SecurityRuleDirectionOutbound_infra = ''Outbound''"

definition SecurityRuleToSDK :: "SecurityRule \<Rightarrow> sdk_SecurityRule" where
  "SecurityRuleToSDK rule =
     \<lparr> Properties = Some
         \<lparr> Description = Some (sr_Description rule),
           Protocol =
             (if sr_Protocol rule = SecurityGroupProtocolAll then SecurityRuleProtocolAsterisk
              else if sr_Protocol rule = SecurityGroupProtocolTCP then SecurityRuleProtocolTCP
              else if sr_Protocol rule = SecurityGroupProtocolUDP then SecurityRuleProtocolUDP
              else if sr_Protocol rule = SecurityGroupProtocolICMP then SecurityRuleProtocolIcmp
              else ''''),
           SourcePortRange = sr_SourcePorts rule,
           DestinationPortRange = sr_DestinationPorts rule,
           SourceAddressPrefix = sr_Source rule,
           DestinationAddressPrefix = sr_Destination rule,
           Access = SecurityRuleAccessAllow,
           Priority = Some (sr_Priority rule),
           Direction =
             (if sr_Direction rule = SecurityRuleDirectionOutbound_infra
              then SecurityRuleDirectionOutbound
              else if sr_Direction rule = SecurityRuleDirectionInbound_infra
              then SecurityRuleDirectionInbound
              else ''''),
           ProvisioningState = '''' \<rparr>,
       Name = Some (sr_Name rule),
       Etag = None,
       ID = None \<rparr>"

text \<open>
  Modelled from the spec: the sources of \<^verbatim>\<open>infrav1.Build\<close> and
  \<^verbatim>\<open>converters.TagsToMap\<close> are missing. The spec says the tags are built from the cluster name,
  the lifecycle, the resource name and the additional tags; the expected payloads of
  \<^verbatim>\<open>spec_test.go\<close> show the two keys written. They only instantiate the parameters
  \<open>build\<close> and \<open>tagsToMap\<close> where a statement is evaluated on concrete input.
\<close>

definition ClusterTagKey :: "string \<Rightarrow> string" where
  "ClusterTagKey name = ''sigs.k8s.io_cluster-api-provider-azure_cluster_'' @ name"

definition NameAzureClusterAPIRole :: string where
  "NameAzureClusterAPIRole = ''sigs.k8s.io_cluster-api-provider-azure_role''"

definition Build :: "BuildParams \<Rightarrow> Tags" where
  "Build params =
     (let tags = bp_Additional params;
          tags = tags(ClusterTagKey (bp_ClusterName params) \<mapsto> bp_Lifecycle params);
          tags = (case bp_Role params of None \<Rightarrow> tags
                  | Some role \<Rightarrow> tags(NameAzureClusterAPIRole \<mapsto> role));
          tags = (case bp_Name params of None \<Rightarrow> tags
                  | Some name \<Rightarrow> tags(''Name'' \<mapsto> name))
      in tags)"

definition TagsToMap :: "Tags \<Rightarrow> (string \<rightharpoonup> string option)" where
  "TagsToMap src = (\<lambda>k. map_option Some (src k))"

section \<open>The rules and groups of the test suite\<close>

text \<open>
  \<^verbatim>\<open>sshRule\<close>, \<^verbatim>\<open>otherRule\<close> and \<^verbatim>\<open>customRule\<close> of \<^verbatim>\<open>spec_test.go\<close> (lines 30-63),
  and the specs and observed groups of its test cases.
\<close>

definition sshRule :: SecurityRule where
  "sshRule = \<lparr> sr_Name = ''allow_ssh'', sr_Description = ''Allow SSH'',
               sr_Protocol = SecurityGroupProtocolTCP,
               sr_Direction = SecurityRuleDirectionInbound_infra,
               sr_Priority = 2200,
               sr_Source = Some ''*'', sr_SourcePorts = Some ''*'',
               sr_Destination = Some ''*'', sr_DestinationPorts = Some ''22'' \<rparr>"

definition otherRule :: SecurityRule where
  "otherRule = \<lparr> sr_Name = ''other_rule'', sr_Description = ''Test Rule'',
                 sr_Protocol = SecurityGroupProtocolTCP,
                 sr_Direction = SecurityRuleDirectionInbound_infra,
                 sr_Priority = 500,
                 sr_Source = Some ''*'', sr_SourcePorts = Some ''*'',
                 sr_Destination = Some ''*'', sr_DestinationPorts = Some ''80'' \<rparr>"

definition customRule :: SecurityRule where
  "customRule = \<lparr> sr_Name = ''custom_rule'', sr_Description = ''Test Rule'',
                  sr_Protocol = SecurityGroupProtocolTCP,
                  sr_Direction = SecurityRuleDirectionOutbound_infra,
                  sr_Priority = 501,
                  sr_Source = Some ''*'', sr_SourcePorts = Some ''*'',
                  sr_Destination = Some ''*'', sr_DestinationPorts = Some ''80'' \<rparr>"

definition testSpec ::
  "SecurityRule list \<Rightarrow> (string \<rightharpoonup> SecurityRule) \<Rightarrow> SecurityRule NSGSpec" where
  "testSpec rules lastApplied =
     \<lparr> spec_Name = ''test-nsg'', SecurityRules = rules, spec_Location = ''test-location'',
       ClusterName = ''my-cluster'', ResourceGroup = ''test-group'',
       AdditionalTags = Map.empty, LastAppliedSecurityRules = lastApplied \<rparr>"

definition testGroup :: "sdk_SecurityRule list \<Rightarrow> SecurityGroup" where
  "testGroup rules =
     \<lparr> sg_Properties = Some \<lparr> pf_SecurityRules = Some rules,
                               pf_DefaultSecurityRules = None,
                               pf_ProvisioningState = '''' \<rparr>,
       sg_Etag = Some ''fake-etag'', sg_ID = None, sg_Name = Some ''test-nsg'',
       sg_Location = Some ''test-location'', sg_Tags = Map.empty \<rparr>"

text \<open>
  Three further desired rules: \<^verbatim>\<open>sshRule\<close> moved to port 2222, \<^verbatim>\<open>sshRule\<close> turned
  into an outbound UDP rule, and a rule between two address ranges that has no
  wildcard in its source port range, source prefix or destination prefix.
\<close>

definition sshRuleMoved :: SecurityRule where
  "sshRuleMoved = sshRule \<lparr> sr_DestinationPorts := Some ''2222'' \<rparr>"

definition sshRuleUDPOutbound :: SecurityRule where
  "sshRuleUDPOutbound =
     sshRule \<lparr> sr_Protocol := SecurityGroupProtocolUDP,
               sr_Direction := SecurityRuleDirectionOutbound_infra \<rparr>"

definition internalRule :: SecurityRule where
  "internalRule = \<lparr> sr_Name = ''allow_internal'', sr_Description = ''Allow internal'',
                    sr_Protocol = SecurityGroupProtocolTCP,
                    sr_Direction = SecurityRuleDirectionInbound_infra,
                    sr_Priority = 2300,
                    sr_Source = Some ''10.0.0.0/16'', sr_SourcePorts = Some ''1024-65535'',
                    sr_Destination = Some ''10.1.0.0/16'',
                    sr_DestinationPorts = Some ''443'' \<rparr>"

section \<open>The surge capacity of a scale set\<close>

text \<open>
  The fields of \<^verbatim>\<open>ScaleSetSpec\<close> (package \<^verbatim>\<open>scalesets\<close>) that decide the capacity
  of an update. \<^verbatim>\<open>Capacity\<close> is an \<^verbatim>\<open>int64\<close>; \<^verbatim>\<open>MaxSurge\<close> is an \<^verbatim>\<open>int\<close>, 64 bits
  wide on the platforms the controller is built for, so \<^verbatim>\<open>int64(s.MaxSurge)\<close> is the
  same word. Both are signed and \<^verbatim>\<open>+\<close> wraps around.
\<close>

record ScaleSetSpec =
  Capacity :: "64 word"
  MaxSurge :: "64 word"
  OrchestrationMode :: string
  ShouldPatchCustomData :: bool
  HasReplicasExternallyManaged :: bool

definition FlexibleOrchestrationMode :: string where
  "FlexibleOrchestrationMode = ''Flexible''"

text \<open>
  The capacity that \<^verbatim>\<open>ScaleSetSpec.existingParameters\<close> leaves in
  \<^verbatim>\<open>vmss.Sku.Capacity\<close> (package \<^verbatim>\<open>scalesets\<close>, the second source in
  \<^verbatim>\<open>client_mock.go\<close>, lines 329-338): it starts as \<^verbatim>\<open>s.Capacity\<close>, set by
  \<^verbatim>\<open>Parameters(ctx, nil)\<close>, and is overwritten with the surge. The spec calls this
  \<^verbatim>\<open>TargetCapacity\<close>. \<open>hasModelChanges\<close> is the result of
  \<^verbatim>\<open>hasModelModifyingDifferences\<close> and \<open>hasEnoughLatestModel\<close> that of
  \<^verbatim>\<open>HasEnoughLatestModelOrNotMixedModel\<close>, both computed from the observed scale set
  by methods of another package. The observed capacity is not read here; it only
  decides afterwards whether the update is sent.
\<close>

definition TargetCapacity :: "ScaleSetSpec \<Rightarrow> bool \<Rightarrow> bool \<Rightarrow> 64 word" where
  "TargetCapacity s hasModelChanges hasEnoughLatestModel =
     (let isFlex = (OrchestrationMode s = FlexibleOrchestrationMode);
          updated = (if \<not> isFlex then hasEnoughLatestModel else True)
      in if 0 <s MaxSurge s \<and> (hasModelChanges \<or> \<not> updated) \<and>
            \<not> HasReplicasExternallyManaged s
         then Capacity s + MaxSurge s
         else Capacity s)"

section \<open>The virtual machine spec\<close>

text \<open>
  Modelled from the spec: the source of \<^verbatim>\<open>VMSpec.Parameters\<close> of the virtual machine
  service is missing, only its test \<^verbatim>\<open>TestParameters\<close> is there, and so are the types
  of \<^verbatim>\<open>api/v1beta1\<close> and the SKU queries of package \<^verbatim>\<open>resourceskus\<close>. The spec says:
  an observed object of the wrong type is an error; an observed machine needs no
  update; an out-of-band deletion (nothing observed for a spec that carries a provider
  ID) is a terminal conflict surfaced with that provider ID, and the resource must not
  be recreated; otherwise a creation payload is built from the desired spec, which
  fails with a terminal error when the spec violates a precondition of the remote API
  (size below a hardware minimum, feature unsupported by the SKU, invalid combination
  of security settings). The preconditions, their messages and the data they read are
  those of the failing cases of the test (lines 531-870 and 1032-1058); the model
  returns what every case of the test that sets only modelled fields expects.

  What neither the spec nor the test fixes is which error is reported when several
  preconditions are violated at once. The test fixes this much: when the OS disk sets
  a security encryption type, the checks of a confidential machine come before those
  of trusted launch, which are then not made (lines 493-529, 531-565), and the clash
  of encryption at host with \<^verbatim>\<open>DiskWithVMGuestState\<close> is reported rather than the
  capability the SKU lacks (lines 670-704). The conflict comes before every
  precondition because the spec forbids the recreation whatever else the desired spec
  asks for. Elsewhere the order below is one of several the test allows, and the
  statement about encryption at host is made for specs that violate no other
  precondition, so that it holds for every such order.
  Of the payload only the size and the encryption-at-host setting are modelled.
\<close>

record ZoneDetails =
  zd_Name :: "string list"
  zd_Capabilities :: "(string \<times> string) list"

record LocationInfo =
  li_Location :: string
  li_ZoneDetails :: "ZoneDetails list"

record SKU =
  sku_Name :: "string option"
  sku_Capabilities :: "(string \<times> string) list"
  sku_LocationInfo :: "LocationInfo list"

record VMDiskSecurityProfile =
  SecurityEncryptionType :: string

record ManagedDiskParameters =
  StorageAccountType :: string
  md_SecurityProfile :: "VMDiskSecurityProfile option"

record OSDisk =
  DiffDiskSettings :: "string option"
  ManagedDisk :: "ManagedDiskParameters option"

record DataDisk =
  NameSuffix :: string
  dd_ManagedDisk :: "ManagedDiskParameters option"

record UefiSettings =
  SecureBootEnabled :: "bool option"
  VTpmEnabled :: "bool option"

record SecurityProfile =
  EncryptionAtHost :: "bool option"
  SecurityType :: string
  sp_UefiSettings :: "UefiSettings option"

record VMSpec =
  vm_Name :: string
  vm_Size :: string
  vm_Location :: string
  vm_Zone :: string
  vm_ProviderID :: string
  vm_OSDisk :: OSDisk
  vm_DataDisks :: "DataDisk list"
  vm_SecurityProfile :: "SecurityProfile option"
  vm_SKU :: SKU

record VirtualMachine =
  payload_Size :: string
  payload_EncryptionAtHost :: "bool option"

datatype vm_existing = IsVirtualMachine | NotVirtualMachine string

datatype vm_error =
    NotAVirtualMachine string
  | VMDeletedError string
  | TerminalError string

text \<open>
  The capability names of package \<^verbatim>\<open>resourceskus\<close> and the values of the enumerations
  of \<^verbatim>\<open>api/v1beta1\<close> that the test refers to; the expected messages spell out
  \<^verbatim>\<open>ConfidentialVM\<close>, \<^verbatim>\<open>TrustedLaunch\<close> and \<^verbatim>\<open>DiskWithVMGuestState\<close>.
\<close>

definition VCPUs :: string where "VCPUs = ''vCPUs''"
definition MemoryGB :: string where "MemoryGB = ''MemoryGB''"
definition EncryptionAtHostCapability :: string where
  "EncryptionAtHostCapability = ''EncryptionAtHostSupported''"
definition EphemeralOSDisk :: string where "EphemeralOSDisk = ''EphemeralOSDiskSupported''"
definition TrustedLaunchDisabled :: string where "TrustedLaunchDisabled = ''TrustedLaunchDisabled''"
definition ConfidentialComputingType :: string where
  "ConfidentialComputingType = ''ConfidentialComputingType''"
definition UltraSSDAvailable :: string where "UltraSSDAvailable = ''UltraSSDAvailable''"
definition CapabilitySupported :: string where "CapabilitySupported = ''True''"
definition MinimumVCPUS :: nat where "MinimumVCPUS = 2"
definition MinimumMemory :: nat where "MinimumMemory = 2"
definition SecurityTypesTrustedLaunch :: string where
  "SecurityTypesTrustedLaunch = ''TrustedLaunch''"
definition SecurityTypesConfidentialVM :: string where
  "SecurityTypesConfidentialVM = ''ConfidentialVM''"
definition SecurityEncryptionTypeVMGuestStateOnly :: string where
  "SecurityEncryptionTypeVMGuestStateOnly = ''VMGuestStateOnly''"
definition SecurityEncryptionTypeDiskWithVMGuestState :: string where
  "SecurityEncryptionTypeDiskWithVMGuestState = ''DiskWithVMGuestState''"
definition UltraSSD_LRS :: string where "UltraSSD_LRS = ''UltraSSD_LRS''"

text \<open>
  The queries on a SKU: a capability listed as supported, a capability whose value, a
  decimal number, reaches a minimum, and a capability listed for a zone of a location.
\<close>

definition HasCapability :: "SKU \<Rightarrow> string \<Rightarrow> bool" where
  "HasCapability sku name =
     list_ex (\<lambda>(n, v). n = name \<and> v = CapabilitySupported) (sku_Capabilities sku)"

definition digitValue :: "char \<Rightarrow> nat option" where
  "digitValue c = map_of (zip ''0123456789'' [0, 1, 2, 3, 4, 5, 6, 7, 8, 9]) c"

fun parseDigits :: "string \<Rightarrow> nat \<Rightarrow> nat option" where
  "parseDigits [] acc = Some acc"
| "parseDigits (c # cs) acc =
     (case digitValue c of
        None \<Rightarrow> None
      | Some d \<Rightarrow> parseDigits cs (10 * acc + d))"

definition parseNumber :: "string \<Rightarrow> nat option" where
  "parseNumber v = (if v = [] then None else parseDigits v 0)"

definition HasCapabilityWithCapacity :: "SKU \<Rightarrow> string \<Rightarrow> nat \<Rightarrow> bool" where
  "HasCapabilityWithCapacity sku name minimum =
     (case map_of (sku_Capabilities sku) name of
        None \<Rightarrow> False
      | Some v \<Rightarrow>
          (case parseNumber v of
             None \<Rightarrow> False
           | Some k \<Rightarrow> minimum \<le> k))"

definition HasLocationCapability :: "SKU \<Rightarrow> string \<Rightarrow> string \<Rightarrow> string \<Rightarrow> bool" where
  "HasLocationCapability sku name location zone =
     list_ex (\<lambda>info. li_Location info = location \<and>
                list_ex (\<lambda>zd. list_ex (\<lambda>(n, v). n = name) (zd_Capabilities zd) \<and>
                              zone \<in> set (zd_Name zd))
                  (li_ZoneDetails info))
       (sku_LocationInfo sku)"

text \<open>What the desired spec asks for.\<close>

definition osDiskSecurityProfile :: "VMSpec \<Rightarrow> VMDiskSecurityProfile option" where
  "osDiskSecurityProfile s =
     (case ManagedDisk (vm_OSDisk s) of
        None \<Rightarrow> None
      | Some md \<Rightarrow> md_SecurityProfile md)"

definition osDiskEncryptionType :: "VMSpec \<Rightarrow> string" where
  "osDiskEncryptionType s =
     (case osDiskSecurityProfile s of
        None \<Rightarrow> ''''
      | Some p \<Rightarrow> SecurityEncryptionType p)"

definition hasUltraDisk :: "VMSpec \<Rightarrow> bool" where
  "hasUltraDisk s =
     list_ex (\<lambda>disk. case dd_ManagedDisk disk of
                        None \<Rightarrow> False
                      | Some md \<Rightarrow> StorageAccountType md = UltraSSD_LRS)
       (vm_DataDisks s)"

definition requestsEncryptionAtHost :: "VMSpec \<Rightarrow> bool" where
  "requestsEncryptionAtHost s =
     (case vm_SecurityProfile s of
        None \<Rightarrow> False
      | Some sp \<Rightarrow> EncryptionAtHost sp = Some True)"

definition requestsSecureBoot :: "VMSpec \<Rightarrow> bool" where
  "requestsSecureBoot s =
     (case vm_SecurityProfile s of
        None \<Rightarrow> False
      | Some sp \<Rightarrow>
          (case sp_UefiSettings sp of
             None \<Rightarrow> False
           | Some uefi \<Rightarrow> SecureBootEnabled uefi = Some True))"

definition requestsVTpm :: "VMSpec \<Rightarrow> bool" where
  "requestsVTpm s =
     (case vm_SecurityProfile s of
        None \<Rightarrow> False
      | Some sp \<Rightarrow>
          (case sp_UefiSettings sp of
             None \<Rightarrow> False
           | Some uefi \<Rightarrow> VTpmEnabled uefi = Some True))"

definition securityType :: "VMSpec \<Rightarrow> string" where
  "securityType s =
     (case vm_SecurityProfile s of
        None \<Rightarrow> ''''
      | Some sp \<Rightarrow> SecurityType sp)"

text \<open>
  The preconditions on size and disks (test lines 777-870 and 1032-1058): the message
  of a violated one, or none.
\<close>

definition storagePrecondition :: "VMSpec \<Rightarrow> string option" where
  "storagePrecondition s =
     (if \<not> HasCapabilityWithCapacity (vm_SKU s) VCPUs MinimumVCPUS
      then Some ''VM size should be bigger or equal to at least 2 vCPUs''
      else if \<not> HasCapabilityWithCapacity (vm_SKU s) MemoryGB MinimumMemory
      then Some ''VM memory should be bigger or equal to at least 2Gi''
      else if DiffDiskSettings (vm_OSDisk s) \<noteq> None \<and>
              \<not> HasCapability (vm_SKU s) EphemeralOSDisk
      then Some (''VM size '' @ vm_Size s @
                 '' does not support ephemeral os. Select a different VM size or disable ephemeral os'')
      else if osDiskSecurityProfile s \<noteq> None \<and>
              \<not> HasCapability (vm_SKU s) ConfidentialComputingType
      then Some (''VM size '' @ vm_Size s @
                 '' does not support confidential computing. Select a different VM size or remove the security profile of the OS disk'')
      else if hasUltraDisk s \<and>
              \<not> HasLocationCapability (vm_SKU s) UltraSSDAvailable (vm_Location s) (vm_Zone s)
      then Some (''VM size '' @ vm_Size s @ '' does not support ultra disks in location '' @
                 vm_Location s @ ''. Select a different VM size or disable ultra disks'')
      else None)"

text \<open>
  The preconditions of a confidential machine, read when the OS disk sets a security
  encryption type (test lines 531-565 and 670-775).
\<close>

definition confidentialPrecondition :: "VMSpec \<Rightarrow> string option" where
  "confidentialPrecondition s =
     (if requestsEncryptionAtHost s \<and>
         osDiskEncryptionType s = SecurityEncryptionTypeDiskWithVMGuestState
      then Some (''encryption at host is not supported when securityEncryptionType is set to '' @
                 SecurityEncryptionTypeDiskWithVMGuestState)
      else if securityType s \<noteq> SecurityTypesConfidentialVM
      then Some (''securityType should be set to '' @ SecurityTypesConfidentialVM @
                 '' when securityEncryptionType is set'')
      else if osDiskEncryptionType s = SecurityEncryptionTypeDiskWithVMGuestState \<and>
              \<not> requestsSecureBoot s
      then Some (''secureBootEnabled should be true when securityEncryptionType is set to '' @
                 SecurityEncryptionTypeDiskWithVMGuestState)
      else if \<not> requestsVTpm s
      then Some ''vTpmEnabled should be true when securityEncryptionType is set''
      else None)"

text \<open>The precondition of encryption at host (test lines 566-585).\<close>

definition encryptionAtHostPrecondition :: "VMSpec \<Rightarrow> string option" where
  "encryptionAtHostPrecondition s =
     (if requestsEncryptionAtHost s \<and>
         \<not> HasCapability (vm_SKU s) EncryptionAtHostCapability
      then Some (''encryption at host is not supported for VM type '' @ vm_Size s)
      else None)"

text \<open>The preconditions of trusted launch (test lines 587-668).\<close>

definition trustedLaunchPrecondition :: "VMSpec \<Rightarrow> string option" where
  "trustedLaunchPrecondition s =
     (if requestsSecureBoot s \<and> HasCapability (vm_SKU s) TrustedLaunchDisabled
      then Some (''secure boot is not supported for VM type '' @ vm_Size s)
      else if requestsVTpm s \<and> HasCapability (vm_SKU s) TrustedLaunchDisabled
      then Some (''vTPM is not supported for VM type '' @ vm_Size s)
      else if (requestsSecureBoot s \<or> requestsVTpm s) \<and>
              securityType s \<noteq> SecurityTypesTrustedLaunch
      then Some (''securityType should be set to '' @ SecurityTypesTrustedLaunch @
                 '' when vTpmEnabled is true'')
      else None)"

definition securityPrecondition :: "VMSpec \<Rightarrow> string option" where
  "securityPrecondition s =
     (if vm_SecurityProfile s = None then None
      else if osDiskEncryptionType s \<noteq> '''' then confidentialPrecondition s
      else
        (case encryptionAtHostPrecondition s of
           Some msg \<Rightarrow> Some msg
         | None \<Rightarrow> trustedLaunchPrecondition s))"

definition VMParameters :: "VMSpec \<Rightarrow> vm_existing option \<Rightarrow> vm_error + VirtualMachine option" where
  "VMParameters s existing =
     (case existing of
        Some (NotVirtualMachine tn) \<Rightarrow> Inl (NotAVirtualMachine tn)
      | Some IsVirtualMachine \<Rightarrow> Inr None
      | None \<Rightarrow>
          if vm_ProviderID s \<noteq> '''' then Inl (VMDeletedError (vm_ProviderID s))
          else
            (case storagePrecondition s of
               Some msg \<Rightarrow> Inl (TerminalError msg)
             | None \<Rightarrow>
                 (case securityPrecondition s of
                    Some msg \<Rightarrow> Inl (TerminalError msg)
                  | None \<Rightarrow>
                      Inr (Some \<lparr> payload_Size = vm_Size s,
                                   payload_EncryptionAtHost =
                                     (case vm_SecurityProfile s of
                                        None \<Rightarrow> None
                                      | Some sp \<Rightarrow> EncryptionAtHost sp) \<rparr>))))"

text \<open>
  The text of a terminal error as the test compares it: the message between the words
  that tell the control loop not to requeue.
\<close>

definition terminalErrorText :: "string \<Rightarrow> string" where
  "terminalErrorText msg =
     ''reconcile error that cannot be recovered occurred: '' @ msg @
     ''. Object will not be requeued''"

text \<open>
  The SKUs of the test (lines 34-212) and the parts its specs are put together from.
  \<open>testVM\<close> holds what all creating cases share of the modelled fields.
\<close>

definition testSKU :: "(string \<times> string) list \<Rightarrow> SKU" where
  "testSKU capabilities =
     \<lparr> sku_Name = Some ''Standard_D2v3'',
       sku_Capabilities = [(VCPUs, ''2''), (MemoryGB, ''4'')] @ capabilities,
       sku_LocationInfo = [] \<rparr>"

definition validSKU :: SKU where
  "validSKU = testSKU []"

definition validSKUWithEncryptionAtHost :: SKU where
  "validSKUWithEncryptionAtHost = testSKU [(EncryptionAtHostCapability, CapabilitySupported)]"

definition validSKUWithTrustedLaunchDisabled :: SKU where
  "validSKUWithTrustedLaunchDisabled = testSKU [(TrustedLaunchDisabled, CapabilitySupported)]"

definition validSKUWithConfidentialComputingType :: SKU where
  "validSKUWithConfidentialComputingType =
     testSKU [(ConfidentialComputingType, CapabilitySupported)]"

definition validSKUWithEphemeralOS :: SKU where
  "validSKUWithEphemeralOS = testSKU [(EphemeralOSDisk, ''True'')]"

definition validSKUWithUltraSSD :: SKU where
  "validSKUWithUltraSSD =
     validSKU \<lparr> sku_LocationInfo :=
       [\<lparr> li_Location = ''test-location'',
          li_ZoneDetails = [\<lparr> zd_Name = [''1''],
                              zd_Capabilities = [(''UltraSSDAvailable'', ''True'')] \<rparr>] \<rparr>] \<rparr>"

definition invalidCPUSKU :: SKU where
  "invalidCPUSKU = \<lparr> sku_Name = Some ''Standard_D2v3'',
                     sku_Capabilities = [(VCPUs, ''1''), (MemoryGB, ''4'')],
                     sku_LocationInfo = [] \<rparr>"

definition invalidMemSKU :: SKU where
  "invalidMemSKU = \<lparr> sku_Name = Some ''Standard_D2v3'',
                     sku_Capabilities = [(VCPUs, ''2''), (MemoryGB, ''1'')],
                     sku_LocationInfo = [] \<rparr>"

definition testVM :: VMSpec where
  "testVM = \<lparr> vm_Name = ''my-vm'', vm_Size = ''Standard_D2v3'', vm_Location = '''',
              vm_Zone = '''', vm_ProviderID = '''',
              vm_OSDisk = \<lparr> DiffDiskSettings = None, ManagedDisk = None \<rparr>,
              vm_DataDisks = [], vm_SecurityProfile = None, vm_SKU = validSKU \<rparr>"

definition premiumDisk :: "string option \<Rightarrow> OSDisk" where
  "premiumDisk encryptionType =
     \<lparr> DiffDiskSettings = None,
       ManagedDisk = Some \<lparr> StorageAccountType = ''Premium_LRS'',
                            md_SecurityProfile =
                              map_option (\<lambda>t. \<lparr> SecurityEncryptionType = t \<rparr>) encryptionType \<rparr> \<rparr>"

definition ephemeralDisk :: OSDisk where
  "ephemeralDisk =
     \<lparr> DiffDiskSettings = Some ''Local'',
       ManagedDisk = Some \<lparr> StorageAccountType = ''Premium_LRS'',
                            md_SecurityProfile = None \<rparr> \<rparr>"

definition ultraDataDisk :: DataDisk where
  "ultraDataDisk =
     \<lparr> NameSuffix = ''myDiskWithUltraDisk'',
       dd_ManagedDisk = Some \<lparr> StorageAccountType = ''UltraSSD_LRS'',
                               md_SecurityProfile = None \<rparr> \<rparr>"

definition securityProfile ::
  "bool option \<Rightarrow> string \<Rightarrow> (bool option \<times> bool option) option \<Rightarrow> SecurityProfile" where
  "securityProfile encryptionAtHost type uefi =
     \<lparr> EncryptionAtHost = encryptionAtHost, SecurityType = type,
       sp_UefiSettings =
         map_option (\<lambda>(secureBoot, vTpm).
                       \<lparr> SecureBootEnabled = secureBoot, VTpmEnabled = vTpm \<rparr>) uefi \<rparr>"

text \<open>
  The specs of the three cases the statements below are evaluated on: the out-of-band
  deletion (lines 241-251), encryption at host on a SKU without it (lines 566-585), and
  encryption at host on a confidential disk (lines 670-704).
\<close>

definition deletedVMSpec :: VMSpec where
  "deletedVMSpec =
     \<lparr> vm_Name = '''', vm_Size = '''', vm_Location = '''', vm_Zone = '''',
       vm_ProviderID = ''fake/vm/id'',
       vm_OSDisk = \<lparr> DiffDiskSettings = None, ManagedDisk = None \<rparr>,
       vm_DataDisks = [], vm_SecurityProfile = None,
       vm_SKU = \<lparr> sku_Name = None, sku_Capabilities = [], sku_LocationInfo = [] \<rparr> \<rparr>"

definition encryptedVMSpec :: VMSpec where
  "encryptedVMSpec =
     testVM \<lparr> vm_SecurityProfile := Some (securityProfile (Some True) '''' None) \<rparr>"

definition encryptedConfidentialVMSpec :: VMSpec where
  "encryptedConfidentialVMSpec =
     testVM \<lparr> vm_OSDisk := premiumDisk (Some SecurityEncryptionTypeDiskWithVMGuestState),
              vm_SecurityProfile :=
                Some (securityProfile (Some True) SecurityTypesConfidentialVM
                        (Some (None, Some True))),
              vm_SKU := validSKUWithConfidentialComputingType \<rparr>"

section \<open>Properties of the loops\<close>

lemma ruleExists_error: "ruleExists eqFold rules rule = Inl e \<Longrightarrow> e = NilPointerDereference"
  by (induction rules) (auto split: if_splits option.splits)

lemma dom_if_upd: "dom (\<lambda>a. if a = k then Some v else m a) = insert k (dom m)"
  by (auto split: if_splits)

lemma desiredLoop_Inr:
  "desiredLoop eqFold toSDK obs rs (u, acc, ann) = Inr (u', acc', ann') \<Longrightarrow>
     u' = (u \<or> (\<exists>r\<in>set rs. missing eqFold toSDK obs r)) \<and>
     acc' = acc @ map toSDK (filter (missing eqFold toSDK obs) rs) \<and>
     dom ann' = dom ann \<union> sr_Name ` set rs"
proof (induction rs arbitrary: u acc ann)
  case Nil
  then show ?case by simp
next
  case (Cons r rs)
  show ?case
  proof (cases "ruleExists eqFold obs (toSDK r)")
    case (Inl e)
    with Cons.prems show ?thesis by (simp add: Let_def)
  next
    case (Inr found)
    show ?thesis
    proof (cases found)
      case True
      with Inr Cons.prems
      have "desiredLoop eqFold toSDK obs rs (u, acc, ann(sr_Name r \<mapsto> sr_Description r))
              = Inr (u', acc', ann')"
        by (simp add: Let_def)
      from Cons.IH [OF this] Inr True show ?thesis
        by (simp add: missing_def dom_if_upd)
    next
      case False
      with Inr Cons.prems
      have "desiredLoop eqFold toSDK obs rs
              (True, acc @ [toSDK r], ann(sr_Name r \<mapsto> sr_Description r))
              = Inr (u', acc', ann')"
        by (simp add: Let_def)
      from Cons.IH [OF this] Inr False show ?thesis
        by (simp add: missing_def dom_if_upd)
    qed
  qed
qed

lemma observedLoop_Inr:
  "observedLoop lastApplied ann obs (u, acc) = Inr (u', acc') \<Longrightarrow>
     u' = (u \<or> (\<exists>r\<in>set obs. retracted lastApplied ann r)) \<and>
     acc' = acc @ filter (\<lambda>r. \<not> retracted lastApplied ann r) obs \<and>
     (\<forall>r\<in>set obs. Name r \<noteq> None)"
proof (induction obs arbitrary: u acc)
  case Nil
  then show ?case by simp
next
  case (Cons r obs)
  from Cons.prems obtain n where n: "Name r = Some n"
    by (cases "Name r") auto
  show ?case
  proof (cases "ann n = None \<and> lastApplied n \<noteq> None")
    case True
    with n Cons.prems
    have "observedLoop lastApplied ann obs (True, acc) = Inr (u', acc')"
      by (simp add: Let_def)
    from Cons.IH [OF this] n True show ?thesis
      by (auto simp: retracted_def)
  next
    case False
    with n Cons.prems
    have "observedLoop lastApplied ann obs (u, acc @ [r]) = Inr (u', acc')"
      by (auto simp: Let_def)
    from Cons.IH [OF this] n False show ?thesis
      by (auto simp: retracted_def)
  qed
qed

lemma ruleExists_total:
  "\<forall>r\<in>set rules. Properties r \<noteq> None \<Longrightarrow> Properties rule \<noteq> None \<Longrightarrow>
     \<exists>b. ruleExists eqFold rules rule = Inr b"
  by (induction rules) auto

lemma desiredLoop_total:
  "\<forall>r\<in>set rs. \<exists>b. ruleExists eqFold obs (toSDK r) = Inr b \<Longrightarrow>
     \<exists>st'. desiredLoop eqFold toSDK obs rs (u, acc, ann) = Inr st'"
proof (induction rs arbitrary: u acc ann)
  case Nil
  then show ?case by simp
next
  case (Cons r rs)
  from Cons.prems obtain b where b: "ruleExists eqFold obs (toSDK r) = Inr b" by auto
  from Cons.prems have rest: "\<forall>r\<in>set rs. \<exists>b. ruleExists eqFold obs (toSDK r) = Inr b" by simp
  show ?case using Cons.IH [OF rest] by (simp add: b Let_def)
qed

lemma observedLoop_total:
  "\<forall>r\<in>set obs. Name r \<noteq> None \<Longrightarrow>
     \<exists>st'. observedLoop lastApplied ann obs (u, acc) = Inr st'"
proof (induction obs arbitrary: u acc)
  case Nil
  then show ?case by simp
next
  case (Cons r obs)
  from Cons.prems obtain n where n: "Name r = Some n" by auto
  from Cons.prems have rest: "\<forall>r\<in>set obs. Name r \<noteq> None" by simp
  show ?case using Cons.IH [OF rest] by (simp add: n Let_def)
qed

lemma Parameters_existing:
  assumes "Parameters eqFold toSDK build tagsToMap s (Some (IsSecurityGroup nsg)) = Inr res"
  shows "\<exists>obs ann. existingSecurityRules nsg = Inr obs \<and>
           dom ann = sr_Name ` set (SecurityRules s) \<and>
           (\<forall>r\<in>set obs. Name r \<noteq> None) \<and>
           res = (if (\<exists>r\<in>set (SecurityRules s). missing eqFold toSDK obs r) \<or>
                     (\<exists>r\<in>set obs. retracted (LastAppliedSecurityRules s) ann r)
                  then Some (payload build tagsToMap s
                         (map toSDK (filter (missing eqFold toSDK obs) (SecurityRules s)) @
                          filter (\<lambda>r. \<not> retracted (LastAppliedSecurityRules s) ann r) obs)
                         (sg_Etag nsg))
                  else None)"
proof -
  from assms obtain obs where obs: "existingSecurityRules nsg = Inr obs"
    by (cases "existingSecurityRules nsg") (auto simp: Parameters_def)
  from assms obs obtain u acc ann where
    d: "desiredLoop eqFold toSDK obs (SecurityRules s) (False, [], Map.empty) = Inr (u, acc, ann)"
    by (cases "desiredLoop eqFold toSDK obs (SecurityRules s) (False, [], Map.empty)")
       (auto simp: Parameters_def)
  from assms obs d obtain u' acc' where
    l: "observedLoop (LastAppliedSecurityRules s) ann obs (u, acc) = Inr (u', acc')"
    by (cases "observedLoop (LastAppliedSecurityRules s) ann obs (u, acc)")
       (auto simp: Parameters_def)
  from assms obs d l have res: "res = (if \<not> u' then None
      else Some (payload build tagsToMap s acc' (sg_Etag nsg)))"
    by (auto simp: Parameters_def)
  from desiredLoop_Inr [OF d] observedLoop_Inr [OF l] res obs show ?thesis
    by (intro exI [of _ obs] exI [of _ ann]) auto
qed

lemma existingSecurityRules_payload:
  "existingSecurityRules (payload build tagsToMap s rules etag) = Inr rules"
  by (simp add: existingSecurityRules_def payload_def)

lemma sg_Etag_payload: "sg_Etag (payload build tagsToMap s rules etag) = etag"
  by (simp add: payload_def)

text \<open>
  \<^verbatim>\<open>Parameters\<close> returns, without a panic, when the rule slice of the observed group is
  there, every observed rule has a name, and \<^verbatim>\<open>ruleExists\<close> returns on every desired
  rule.
\<close>

lemma Parameters_returns:
  assumes obs: "existingSecurityRules nsg = Inr obs"
    and found: "\<forall>r\<in>set (SecurityRules s). \<exists>b. ruleExists eqFold obs (toSDK r) = Inr b"
    and named: "\<forall>old\<in>set obs. Name old \<noteq> None"
  shows "\<exists>res. Parameters eqFold toSDK build tagsToMap s (Some (IsSecurityGroup nsg)) = Inr res"
proof -
  from desiredLoop_total [OF found] obtain u acc ann where
    d: "desiredLoop eqFold toSDK obs (SecurityRules s) (False, [], Map.empty) = Inr (u, acc, ann)"
    using prod_cases3 by metis
  from observedLoop_total [OF named] obtain u' acc' where
    l: "observedLoop (LastAppliedSecurityRules s) ann obs (u, acc) = Inr (u', acc')"
    by (metis surj_pair)
  show ?thesis by (simp add: Parameters_def obs d l)
qed

text \<open>Addition of \<^verbatim>\<open>int64\<close> values is exact while the sum stays in range.\<close>

lemma sint_add_no_overflow:
  fixes a b :: "64 word"
  assumes "0 < sint b" and "sint a + sint b < 2 ^ 63"
  shows "sint (a + b) = sint a + sint b"
proof -
  have lo: "- (2 ^ 63) \<le> sint a" using sint_ge [of a] by simp
  have "sint (a + b) = signed_take_bit 63 (sint a + sint b)"
    by (simp add: sint_word_ariths)
  also have "\<dots> = sint a + sint b"
    using assms lo by (intro signed_take_bit_int_eq_self) simp_all
  finally show ?thesis .
qed

lemmas const_defs =
  SecurityGroupProtocolAll_def SecurityGroupProtocolTCP_def SecurityGroupProtocolUDP_def
  SecurityGroupProtocolICMP_def SecurityRuleProtocolTCP_def SecurityRuleProtocolUDP_def
  SecurityRuleProtocolIcmp_def SecurityRuleProtocolAsterisk_def SecurityRuleAccessAllow_def
  SecurityRuleAccessDeny_def SecurityRuleDirectionInbound_def SecurityRuleDirectionOutbound_def
  SecurityRuleDirectionInbound_infra_def SecurityRuleDirectionOutbound_infra_def

lemmas rule_defs =
  SecurityRuleToSDK_def sshRule_def otherRule_def customRule_def sshRuleMoved_def
  sshRuleUDPOutbound_def internalRule_def

lemmas eval_defs =
  Parameters_def existingSecurityRules_def testSpec_def testGroup_def payload_def
  EqualFoldASCII_def toLower_def Deref_def Let_def payloadRules_def

section \<open>The test cases of the security group spec\<close>

text \<open>
  The model returns what \<^verbatim>\<open>TestParameters\<close> of \<^verbatim>\<open>spec_test.go\<close> expects in its four
  cases with an observed group: no update when all rules are present, the missing rule
  ahead of the observed ones, the retracted rule gone, and no update when the only
  surplus rule is not tracked.
\<close>

lemma test_all_rules_present:
  "Parameters EqualFoldASCII SecurityRuleToSDK Build TagsToMap (testSpec [sshRule, otherRule] Map.empty)
     (Some (IsSecurityGroup (testGroup [SecurityRuleToSDK sshRule, SecurityRuleToSDK otherRule])))
     = Inr None"
  by (simp add: eval_defs rule_defs const_defs)

lemma test_missing_rule:
  "payloadRules
     (Parameters EqualFoldASCII SecurityRuleToSDK Build TagsToMap (testSpec [sshRule, otherRule] Map.empty)
        (Some (IsSecurityGroup
                 (testGroup [SecurityRuleToSDK sshRule, SecurityRuleToSDK customRule]))))
     = [SecurityRuleToSDK otherRule, SecurityRuleToSDK sshRule, SecurityRuleToSDK customRule]"
  by (simp add: eval_defs rule_defs const_defs)

lemma test_rule_deleted:
  "payloadRules
     (Parameters EqualFoldASCII SecurityRuleToSDK Build TagsToMap
        (testSpec [sshRule, customRule]
           [''allow_ssh'' \<mapsto> sshRule, ''custom_rule'' \<mapsto> customRule,
            ''other_rule'' \<mapsto> otherRule])
        (Some (IsSecurityGroup
                 (testGroup [SecurityRuleToSDK sshRule, SecurityRuleToSDK customRule,
                             SecurityRuleToSDK otherRule]))))
     = [SecurityRuleToSDK sshRule, SecurityRuleToSDK customRule]"
  by (simp add: eval_defs rule_defs const_defs)

lemma test_rule_not_owned:
  "Parameters EqualFoldASCII SecurityRuleToSDK Build TagsToMap
     (testSpec [sshRule, customRule]
        [''allow_ssh'' \<mapsto> sshRule, ''custom_rule'' \<mapsto> customRule])
     (Some (IsSecurityGroup
              (testGroup [SecurityRuleToSDK sshRule, SecurityRuleToSDK customRule,
                          SecurityRuleToSDK otherRule])))
     = Inr None"
  by (simp add: eval_defs rule_defs const_defs)

section \<open>The no-op and the equality test\<close>

text \<open>
  When \<^verbatim>\<open>ruleExists\<close> finds every desired rule and no observed rule is both tracked
  and absent from the desired names, \<^verbatim>\<open>Parameters\<close> returns \<^verbatim>\<open>(nil, nil)\<close>.
\<close>

lemma Parameters_no_update:
  assumes obs: "existingSecurityRules nsg = Inr obs"
    and found: "\<forall>r\<in>set (SecurityRules s). ruleExists eqFold obs (toSDK r) = Inr True"
    and kept: "\<forall>old\<in>set obs. \<exists>n. Name old = Some n \<and>
                 (LastAppliedSecurityRules s n = None \<or> n \<in> sr_Name ` set (SecurityRules s))"
  shows "Parameters eqFold toSDK build tagsToMap s (Some (IsSecurityGroup nsg)) = Inr None"
proof -
  from found have f: "\<forall>r\<in>set (SecurityRules s). \<exists>b. ruleExists eqFold obs (toSDK r) = Inr b"
    by blast
  from kept have n: "\<forall>old\<in>set obs. Name old \<noteq> None" by auto
  from Parameters_returns [OF obs f n] obtain res where
    res: "Parameters eqFold toSDK build tagsToMap s (Some (IsSecurityGroup nsg)) = Inr res" by blast
  from Parameters_existing [OF res] obs obtain ann where
    ann: "dom ann = sr_Name ` set (SecurityRules s)" and
    r: "res = (if (\<exists>r\<in>set (SecurityRules s). missing eqFold toSDK obs r) \<or>
                     (\<exists>r\<in>set obs. retracted (LastAppliedSecurityRules s) ann r)
                  then Some (payload build tagsToMap s
                         (map toSDK (filter (missing eqFold toSDK obs) (SecurityRules s)) @
                          filter (\<lambda>r. \<not> retracted (LastAppliedSecurityRules s) ann r) obs)
                         (sg_Etag nsg))
                  else None)"
    by auto
  from found have nomiss: "\<not> (\<exists>r\<in>set (SecurityRules s). missing eqFold toSDK obs r)"
    by (simp add: missing_def)
  have noretr: "\<not> (\<exists>r\<in>set obs. retracted (LastAppliedSecurityRules s) ann r)"
  proof
    assume "\<exists>r\<in>set obs. retracted (LastAppliedSecurityRules s) ann r"
    then obtain old where old: "old \<in> set obs"
      "retracted (LastAppliedSecurityRules s) ann old" by blast
    from kept old(1) obtain n where n: "Name old = Some n"
      "LastAppliedSecurityRules s n = None \<or> n \<in> sr_Name ` set (SecurityRules s)" by blast
    from old(2) n(1) have "ann n = None" "LastAppliedSecurityRules s n \<noteq> None"
      by (simp_all add: retracted_def)
    with n(2) ann show False by (metis domIff)
  qed
  from r nomiss noretr res show ?thesis by simp
qed

text \<open>
  C1. Claimed: when every desired rule is semantically present among the observed
  rules and no tracked rule is to be retracted, \<^verbatim>\<open>Parameters\<close> returns \<^verbatim>\<open>(nil, nil)\<close>,
  in particular when the desired rules are a permutation of the observed rules with
  identical content. The code does not do the latter: for a desired rule set that
  consists of one rule between two address ranges, and an observed group that holds
  exactly the conversion of that rule, \<^verbatim>\<open>ruleExists\<close> skips the observed rule because
  none of its source port range, source prefix and destination prefix is the wildcard,
  and \<^verbatim>\<open>Parameters\<close> returns an update that carries the rule twice.
\<close>

theorem identical_rules_still_updated:
  "Parameters EqualFoldASCII SecurityRuleToSDK Build TagsToMap (testSpec [internalRule] Map.empty)
     (Some (IsSecurityGroup (testGroup [SecurityRuleToSDK internalRule])))
     = Inr (Some (payload Build TagsToMap (testSpec [internalRule] Map.empty)
                    [SecurityRuleToSDK internalRule, SecurityRuleToSDK internalRule]
                    (Some ''fake-etag'')))"
  by (simp add: eval_defs rule_defs const_defs)

text \<open>
  C6. Claimed: \<^verbatim>\<open>ruleExists\<close> finds a desired rule iff some observed rule agrees with it
  on name, destination port range, protocol, access, direction and the source and
  destination prefixes, so two rules that differ in protocol, access or direction are
  never judged equal. The code compares only name and destination port range with the
  desired rule; protocol, access, direction and the prefixes are tested on the
  observed rule alone, against constants. So the observed inbound TCP rule
  \<^verbatim>\<open>allow_ssh\<close> makes an outbound UDP rule of that name and port exist, and a rule
  without a wildcard does not exist even among rules that contain it.
\<close>

theorem ruleExists_ignores_protocol_and_direction:
  "ruleExists EqualFoldASCII [SecurityRuleToSDK sshRule] (SecurityRuleToSDK sshRuleUDPOutbound) = Inr True \<and>
   Protocol (the (Properties (SecurityRuleToSDK sshRule)))
     \<noteq> Protocol (the (Properties (SecurityRuleToSDK sshRuleUDPOutbound))) \<and>
   Direction (the (Properties (SecurityRuleToSDK sshRule)))
     \<noteq> Direction (the (Properties (SecurityRuleToSDK sshRuleUDPOutbound))) \<and>
   ruleExists EqualFoldASCII [SecurityRuleToSDK internalRule] (SecurityRuleToSDK internalRule) = Inr False"
  by (simp add: eval_defs rule_defs const_defs)

section \<open>Ownership of the observed rules\<close>

text \<open>
  C2. Whenever \<^verbatim>\<open>Parameters\<close> returns an update for an observed group, every observed
  rule whose name is no key of \<^verbatim>\<open>LastAppliedSecurityRules\<close> is among the rules of the
  update, as the same value, whatever the desired rules are.
\<close>

theorem untracked_rule_preserved:
  assumes ret: "Parameters eqFold toSDK build tagsToMap s (Some (IsSecurityGroup nsg)) = Inr (Some p)"
    and obs: "existingSecurityRules nsg = Inr obs"
    and mem: "r \<in> set obs"
    and name: "Name r = Some n"
    and untracked: "LastAppliedSecurityRules s n = None"
  shows "\<exists>rules. existingSecurityRules p = Inr rules \<and> r \<in> set rules"
proof -
  from Parameters_existing [OF ret] obs obtain ann where
    r: "Some p = (if (\<exists>r\<in>set (SecurityRules s). missing eqFold toSDK obs r) \<or>
                     (\<exists>r\<in>set obs. retracted (LastAppliedSecurityRules s) ann r)
                  then Some (payload build tagsToMap s
                         (map toSDK (filter (missing eqFold toSDK obs) (SecurityRules s)) @
                          filter (\<lambda>r. \<not> retracted (LastAppliedSecurityRules s) ann r) obs)
                         (sg_Etag nsg))
                  else None)"
    by auto
  then have p: "p = payload build tagsToMap s
                         (map toSDK (filter (missing eqFold toSDK obs) (SecurityRules s)) @
                          filter (\<lambda>r. \<not> retracted (LastAppliedSecurityRules s) ann r) obs)
                         (sg_Etag nsg)"
    by (simp split: if_splits)
  from name untracked have "\<not> retracted (LastAppliedSecurityRules s) ann r"
    by (simp add: retracted_def)
  with mem show ?thesis
    by (simp add: p existingSecurityRules_payload)
qed

theorem untracked_rule_preserved_witness:
  "Parameters EqualFoldASCII SecurityRuleToSDK Build TagsToMap (testSpec [sshRule, otherRule] Map.empty)
     (Some (IsSecurityGroup (testGroup [SecurityRuleToSDK sshRule, SecurityRuleToSDK customRule])))
     = Inr (Some (payload Build TagsToMap (testSpec [sshRule, otherRule] Map.empty)
                    [SecurityRuleToSDK otherRule, SecurityRuleToSDK sshRule,
                     SecurityRuleToSDK customRule] (Some ''fake-etag''))) \<and>
   (\<exists>rules. existingSecurityRules
              (payload Build TagsToMap (testSpec [sshRule, otherRule] Map.empty)
                    [SecurityRuleToSDK otherRule, SecurityRuleToSDK sshRule,
                     SecurityRuleToSDK customRule] (Some ''fake-etag'')) = Inr rules \<and>
            SecurityRuleToSDK customRule \<in> set rules)"
proof -
  let ?s = "testSpec [sshRule, otherRule] Map.empty"
  let ?g = "testGroup [SecurityRuleToSDK sshRule, SecurityRuleToSDK customRule]"
  let ?p = "payload Build TagsToMap ?s
              [SecurityRuleToSDK otherRule, SecurityRuleToSDK sshRule,
               SecurityRuleToSDK customRule] (Some ''fake-etag'')"
  have ret: "Parameters EqualFoldASCII SecurityRuleToSDK Build TagsToMap ?s (Some (IsSecurityGroup ?g))
               = Inr (Some ?p)"
    by (simp add: eval_defs rule_defs const_defs)
  have obs: "existingSecurityRules ?g
               = Inr [SecurityRuleToSDK sshRule, SecurityRuleToSDK customRule]"
    by (simp add: existingSecurityRules_def testGroup_def)
  have mem: "SecurityRuleToSDK customRule
               \<in> set [SecurityRuleToSDK sshRule, SecurityRuleToSDK customRule]"
    by simp
  have name: "Name (SecurityRuleToSDK customRule) = Some ''custom_rule''"
    by (simp add: SecurityRuleToSDK_def customRule_def)
  have untracked: "LastAppliedSecurityRules ?s ''custom_rule'' = None"
    by (simp add: testSpec_def)
  from untracked_rule_preserved [OF ret obs mem name untracked] ret show ?thesis
    by simp
qed

text \<open>
  C3. An observed rule whose name is a key of \<^verbatim>\<open>LastAppliedSecurityRules\<close> and is the
  name of no desired rule is retracted: whenever \<^verbatim>\<open>Parameters\<close> returns, it returns an
  update, and neither that rule nor any rule of that name is in it. The converter is
  taken to name its result after the desired rule.
\<close>

theorem tracked_rule_retracted:
  assumes ret: "Parameters eqFold toSDK build tagsToMap s (Some (IsSecurityGroup nsg)) = Inr res"
    and obs: "existingSecurityRules nsg = Inr obs"
    and mem: "old \<in> set obs"
    and name: "Name old = Some n"
    and tracked: "LastAppliedSecurityRules s n \<noteq> None"
    and absent: "n \<notin> sr_Name ` set (SecurityRules s)"
    and conv: "\<forall>r\<in>set (SecurityRules s). Name (toSDK r) = Some (sr_Name r)"
  shows "\<exists>p rules. res = Some p \<and> existingSecurityRules p = Inr rules \<and>
           old \<notin> set rules \<and> (\<forall>r\<in>set rules. Name r \<noteq> Some n)"
proof -
  from Parameters_existing [OF ret] obs obtain ann where
    ann: "dom ann = sr_Name ` set (SecurityRules s)" and
    r: "res = (if (\<exists>r\<in>set (SecurityRules s). missing eqFold toSDK obs r) \<or>
                     (\<exists>r\<in>set obs. retracted (LastAppliedSecurityRules s) ann r)
                  then Some (payload build tagsToMap s
                         (map toSDK (filter (missing eqFold toSDK obs) (SecurityRules s)) @
                          filter (\<lambda>r. \<not> retracted (LastAppliedSecurityRules s) ann r) obs)
                         (sg_Etag nsg))
                  else None)"
    by auto
  from absent ann have none: "ann n = None" by (metis domIff)
  have retr: "\<And>x. Name x = Some n \<Longrightarrow> retracted (LastAppliedSecurityRules s) ann x"
    using none tracked by (simp add: retracted_def)
  from retr [OF name] mem
  have ex: "\<exists>r\<in>set obs. retracted (LastAppliedSecurityRules s) ann r" by blast
  let ?rules = "map toSDK (filter (missing eqFold toSDK obs) (SecurityRules s)) @
                filter (\<lambda>r. \<not> retracted (LastAppliedSecurityRules s) ann r) obs"
  from r ex have res: "res = Some (payload build tagsToMap s ?rules (sg_Etag nsg))" by simp
  have names: "\<forall>r\<in>set ?rules. Name r \<noteq> Some n"
  proof
    fix x assume "x \<in> set ?rules"
    then consider (desired) d where "d \<in> set (SecurityRules s)" "x = toSDK d"
      | (observed) "x \<in> set obs" "\<not> retracted (LastAppliedSecurityRules s) ann x"
      by auto
    then show "Name x \<noteq> Some n"
    proof cases
      case desired
      with conv have "Name x = Some (sr_Name d)" by simp
      with desired(1) absent show ?thesis by auto
    next
      case observed
      with retr show ?thesis by blast
    qed
  qed
  with name have "old \<notin> set ?rules" by blast
  with names res show ?thesis
    by (simp add: existingSecurityRules_payload)
qed

theorem tracked_rule_retracted_witness:
  "Parameters EqualFoldASCII SecurityRuleToSDK Build TagsToMap
     (testSpec [sshRule, customRule]
        [''allow_ssh'' \<mapsto> sshRule, ''custom_rule'' \<mapsto> customRule, ''other_rule'' \<mapsto> otherRule])
     (Some (IsSecurityGroup
              (testGroup [SecurityRuleToSDK sshRule, SecurityRuleToSDK customRule,
                          SecurityRuleToSDK otherRule])))
     = Inr (Some (payload Build TagsToMap
                    (testSpec [sshRule, customRule]
                       [''allow_ssh'' \<mapsto> sshRule, ''custom_rule'' \<mapsto> customRule,
                        ''other_rule'' \<mapsto> otherRule])
                    [SecurityRuleToSDK sshRule, SecurityRuleToSDK customRule]
                    (Some ''fake-etag''))) \<and>
   SecurityRuleToSDK otherRule \<notin> set [SecurityRuleToSDK sshRule, SecurityRuleToSDK customRule]"
proof -
  let ?s = "testSpec [sshRule, customRule]
              [''allow_ssh'' \<mapsto> sshRule, ''custom_rule'' \<mapsto> customRule,
               ''other_rule'' \<mapsto> otherRule]"
  let ?obs = "[SecurityRuleToSDK sshRule, SecurityRuleToSDK customRule,
               SecurityRuleToSDK otherRule]"
  let ?p = "payload Build TagsToMap ?s [SecurityRuleToSDK sshRule, SecurityRuleToSDK customRule]
              (Some ''fake-etag'')"
  have ret: "Parameters EqualFoldASCII SecurityRuleToSDK Build TagsToMap ?s
               (Some (IsSecurityGroup (testGroup ?obs))) = Inr (Some ?p)"
    by (simp add: eval_defs rule_defs const_defs)
  have obs: "existingSecurityRules (testGroup ?obs) = Inr ?obs"
    by (simp add: existingSecurityRules_def testGroup_def)
  have mem: "SecurityRuleToSDK otherRule \<in> set ?obs" by simp
  have name: "Name (SecurityRuleToSDK otherRule) = Some ''other_rule''"
    by (simp add: SecurityRuleToSDK_def otherRule_def)
  have tracked: "LastAppliedSecurityRules ?s ''other_rule'' \<noteq> None"
    by (simp add: testSpec_def)
  have absent: "''other_rule'' \<notin> sr_Name ` set (SecurityRules ?s)"
    by (simp add: testSpec_def sshRule_def customRule_def)
  have conv: "\<forall>r\<in>set (SecurityRules ?s). Name (SecurityRuleToSDK r) = Some (sr_Name r)"
    by (simp add: SecurityRuleToSDK_def)
  from tracked_rule_retracted [OF ret obs mem name tracked absent conv] ret show ?thesis
    by (auto simp: existingSecurityRules_payload)
qed

section \<open>Creation and changed rules\<close>

text \<open>
  C4. With no observed group, \<^verbatim>\<open>Parameters\<close> returns a payload and no error: its rules
  are the conversions of the desired rules in order, its location is that of the spec,
  its etag is nil, and its tags are built from the cluster name, the owned lifecycle,
  the resource name and the additional tags.
\<close>

theorem creation_payload:
  "\<exists>p. Parameters eqFold toSDK build tagsToMap s None = Inr (Some p) \<and>
       existingSecurityRules p = Inr (map toSDK (SecurityRules s)) \<and>
       sg_Location p = Some (spec_Location s) \<and>
       sg_Etag p = None \<and>
       sg_Tags p = tagsToMap (build \<lparr> bp_ClusterName = ClusterName s,
                                      bp_Lifecycle = ResourceLifecycleOwned,
                                      bp_Name = Some (spec_Name s),
                                      bp_Role = None,
                                      bp_Additional = AdditionalTags s \<rparr>)"
  by (simp add: Parameters_def payload_def existingSecurityRules_def)




text \<open>
  C10. An update returned for an observed group carries the etag of that group; the
  payload returned when nothing is observed has no etag.
\<close>

theorem payload_etag:
  "(\<forall>p. Parameters eqFold toSDK build tagsToMap s (Some (IsSecurityGroup nsg)) = Inr (Some p) \<longrightarrow>
        sg_Etag p = sg_Etag nsg) \<and>
   (\<exists>q. Parameters eqFold toSDK build tagsToMap s None = Inr (Some q) \<and> sg_Etag q = None)"
proof (intro conjI allI impI)
  fix p
  assume ret: "Parameters eqFold toSDK build tagsToMap s (Some (IsSecurityGroup nsg)) = Inr (Some p)"
  from Parameters_existing [OF ret] show "sg_Etag p = sg_Etag nsg"
    by (auto simp: sg_Etag_payload split: if_splits)
next
  show "\<exists>q. Parameters eqFold toSDK build tagsToMap s None = Inr (Some q) \<and> sg_Etag q = None"
    by (simp add: Parameters_def sg_Etag_payload)
qed

theorem payload_etag_witness:
  "Parameters EqualFoldASCII SecurityRuleToSDK Build TagsToMap (testSpec [sshRule, otherRule] Map.empty)
     (Some (IsSecurityGroup (testGroup [SecurityRuleToSDK sshRule])))
     = Inr (Some (payload Build TagsToMap (testSpec [sshRule, otherRule] Map.empty)
                    [SecurityRuleToSDK otherRule, SecurityRuleToSDK sshRule]
                    (Some ''fake-etag''))) \<and>
   sg_Etag (payload Build TagsToMap (testSpec [sshRule, otherRule] Map.empty)
              [SecurityRuleToSDK otherRule, SecurityRuleToSDK sshRule] (Some ''fake-etag''))
     = sg_Etag (testGroup [SecurityRuleToSDK sshRule])"
proof -
  let ?s = "testSpec [sshRule, otherRule] Map.empty"
  let ?g = "testGroup [SecurityRuleToSDK sshRule]"
  let ?p = "payload Build TagsToMap ?s [SecurityRuleToSDK otherRule, SecurityRuleToSDK sshRule]
              (Some ''fake-etag'')"
  have ret: "Parameters EqualFoldASCII SecurityRuleToSDK Build TagsToMap ?s (Some (IsSecurityGroup ?g))
               = Inr (Some ?p)"
    by (simp add: eval_defs rule_defs const_defs)
  from payload_etag [of EqualFoldASCII SecurityRuleToSDK Build TagsToMap ?s ?g] ret show ?thesis
    by blast
qed

section \<open>The virtual machine spec: the cases of its test\<close>

lemmas sku_defs =
  VCPUs_def MemoryGB_def EncryptionAtHostCapability_def EphemeralOSDisk_def
  TrustedLaunchDisabled_def ConfidentialComputingType_def UltraSSDAvailable_def
  CapabilitySupported_def MinimumVCPUS_def MinimumMemory_def testSKU_def validSKU_def
  validSKUWithEncryptionAtHost_def validSKUWithTrustedLaunchDisabled_def
  validSKUWithConfidentialComputingType_def validSKUWithEphemeralOS_def
  validSKUWithUltraSSD_def invalidCPUSKU_def invalidMemSKU_def
  HasCapability_def HasCapabilityWithCapacity_def HasLocationCapability_def
  digitValue_def parseNumber_def

lemmas vm_defs =
  VMParameters_def storagePrecondition_def securityPrecondition_def
  confidentialPrecondition_def encryptionAtHostPrecondition_def trustedLaunchPrecondition_def
  osDiskSecurityProfile_def osDiskEncryptionType_def hasUltraDisk_def
  requestsEncryptionAtHost_def requestsSecureBoot_def requestsVTpm_def securityType_def
  SecurityTypesTrustedLaunch_def SecurityTypesConfidentialVM_def
  SecurityEncryptionTypeVMGuestStateOnly_def SecurityEncryptionTypeDiskWithVMGuestState_def
  UltraSSD_LRS_def testVM_def premiumDisk_def ephemeralDisk_def ultraDataDisk_def
  securityProfile_def deletedVMSpec_def encryptedVMSpec_def encryptedConfidentialVMSpec_def

text \<open>
  The model returns what \<^verbatim>\<open>TestParameters\<close> of the virtual machine spec expects:
  first the cases that end without a payload, in the order of the test.
\<close>

lemma test_vm_wrong_type:
  "VMParameters testVM (Some (NotVirtualMachine ''network.VirtualNetwork''))
     = Inl (NotAVirtualMachine ''network.VirtualNetwork'')"
  by (simp add: VMParameters_def)

lemma test_vm_exists:
  "VMParameters testVM (Some IsVirtualMachine) = Inr None"
  by (simp add: VMParameters_def)

lemma test_vm_confidential_without_security_type:
  "VMParameters
     (testVM \<lparr> vm_OSDisk := premiumDisk (Some SecurityEncryptionTypeVMGuestStateOnly),
               vm_SecurityProfile :=
                 Some (securityProfile None '''' (Some (Some False, Some True))),
               vm_SKU := validSKUWithConfidentialComputingType \<rparr>) None
     = Inl (TerminalError
              ''securityType should be set to ConfidentialVM when securityEncryptionType is set'')"
  by (simp add: vm_defs sku_defs)

lemma test_vm_encryption_at_host_unsupported:
  "VMParameters encryptedVMSpec None
     = Inl (TerminalError ''encryption at host is not supported for VM type Standard_D2v3'') \<and>
   terminalErrorText ''encryption at host is not supported for VM type Standard_D2v3''
     = ''reconcile error that cannot be recovered occurred: encryption at host is not supported for VM type Standard_D2v3. Object will not be requeued''"
  by (simp add: vm_defs sku_defs terminalErrorText_def)

lemma test_vm_trusted_launch_without_security_type:
  "VMParameters
     (testVM \<lparr> vm_OSDisk := premiumDisk None,
               vm_SecurityProfile :=
                 Some (securityProfile None '''' (Some (Some False, Some True))),
               vm_SKU := validSKUWithConfidentialComputingType \<rparr>) None
     = Inl (TerminalError
              ''securityType should be set to TrustedLaunch when vTpmEnabled is true'')"
  by (simp add: vm_defs sku_defs)

lemma test_vm_secure_boot_unsupported:
  "VMParameters
     (testVM \<lparr> vm_SecurityProfile :=
                 Some (securityProfile None SecurityTypesTrustedLaunch
                         (Some (Some True, None))),
               vm_SKU := validSKUWithTrustedLaunchDisabled \<rparr>) None
     = Inl (TerminalError ''secure boot is not supported for VM type Standard_D2v3'')"
  by (simp add: vm_defs sku_defs)

lemma test_vm_vtpm_unsupported:
  "VMParameters
     (testVM \<lparr> vm_SecurityProfile :=
                 Some (securityProfile None SecurityTypesTrustedLaunch
                         (Some (None, Some True))),
               vm_SKU := validSKUWithTrustedLaunchDisabled \<rparr>) None
     = Inl (TerminalError ''vTPM is not supported for VM type Standard_D2v3'')"
  by (simp add: vm_defs sku_defs)

lemma test_vm_confidential_secure_boot_disabled:
  "VMParameters
     (testVM \<lparr> vm_OSDisk := premiumDisk (Some SecurityEncryptionTypeDiskWithVMGuestState),
               vm_SecurityProfile :=
                 Some (securityProfile None SecurityTypesConfidentialVM
                         (Some (Some False, Some True))),
               vm_SKU := validSKUWithConfidentialComputingType \<rparr>) None
     = Inl (TerminalError
              ''secureBootEnabled should be true when securityEncryptionType is set to DiskWithVMGuestState'')"
  by (simp add: vm_defs sku_defs)

lemma test_vm_confidential_vtpm_disabled:
  "VMParameters
     (testVM \<lparr> vm_OSDisk := premiumDisk (Some SecurityEncryptionTypeVMGuestStateOnly),
               vm_SecurityProfile :=
                 Some (securityProfile None SecurityTypesConfidentialVM
                         (Some (None, Some False))),
               vm_SKU := validSKUWithConfidentialComputingType \<rparr>) None
     = Inl (TerminalError ''vTpmEnabled should be true when securityEncryptionType is set'')"
  by (simp add: vm_defs sku_defs)

lemma test_vm_confidential_unsupported_size:
  "VMParameters
     (testVM \<lparr> vm_OSDisk := premiumDisk (Some SecurityEncryptionTypeVMGuestStateOnly),
               vm_SecurityProfile :=
                 Some (securityProfile None SecurityTypesConfidentialVM
                         (Some (None, Some True))) \<rparr>) None
     = Inl (TerminalError
              ''VM size Standard_D2v3 does not support confidential computing. Select a different VM size or remove the security profile of the OS disk'')"
  by (simp add: vm_defs sku_defs)

lemma test_vm_ephemeral_unsupported:
  "VMParameters (testVM \<lparr> vm_OSDisk := ephemeralDisk \<rparr>) None
     = Inl (TerminalError
              ''VM size Standard_D2v3 does not support ephemeral os. Select a different VM size or disable ephemeral os'')"
  by (simp add: vm_defs sku_defs)

lemma test_vm_too_few_vcpus:
  "VMParameters (testVM \<lparr> vm_SKU := invalidCPUSKU \<rparr>) None
     = Inl (TerminalError ''VM size should be bigger or equal to at least 2 vCPUs'')"
  by (simp add: vm_defs sku_defs)

lemma test_vm_too_little_memory:
  "VMParameters (testVM \<lparr> vm_SKU := invalidMemSKU \<rparr>) None
     = Inl (TerminalError ''VM memory should be bigger or equal to at least 2Gi'')"
  by (simp add: vm_defs sku_defs)

lemma test_vm_ultra_disk_unsupported:
  "VMParameters
     (testVM \<lparr> vm_Location := ''test-location'', vm_Zone := ''1'',
               vm_DataDisks := [ultraDataDisk] \<rparr>) None
     = Inl (TerminalError
              ''VM size Standard_D2v3 does not support ultra disks in location test-location. Select a different VM size or disable ultra disks'')"
  by (simp add: vm_defs sku_defs)

text \<open>The cases that end with a payload and set a modelled field.\<close>

lemma test_vm_created:
  "VMParameters (testVM \<lparr> vm_Zone := ''1'' \<rparr>) None
     = Inr (Some \<lparr> payload_Size = ''Standard_D2v3'', payload_EncryptionAtHost = None \<rparr>)"
  by (simp add: vm_defs sku_defs)

lemma test_vm_encryption_at_host:
  "VMParameters
     (testVM \<lparr> vm_Zone := ''1'',
               vm_SecurityProfile := Some (securityProfile (Some True) '''' None),
               vm_SKU := validSKUWithEncryptionAtHost \<rparr>) None
     = Inr (Some \<lparr> payload_Size = ''Standard_D2v3'',
                    payload_EncryptionAtHost = Some True \<rparr>)"
  by (simp add: vm_defs sku_defs)

lemma test_vm_ephemeral:
  "VMParameters (testVM \<lparr> vm_OSDisk := ephemeralDisk, vm_SKU := validSKUWithEphemeralOS \<rparr>) None
     = Inr (Some \<lparr> payload_Size = ''Standard_D2v3'', payload_EncryptionAtHost = None \<rparr>)"
  by (simp add: vm_defs sku_defs)

lemma test_vm_trusted_launch:
  "VMParameters
     (testVM \<lparr> vm_SecurityProfile :=
                 Some (securityProfile None SecurityTypesTrustedLaunch
                         (Some (Some True, Some True))) \<rparr>) None
     = Inr (Some \<lparr> payload_Size = ''Standard_D2v3'', payload_EncryptionAtHost = None \<rparr>)"
  by (simp add: vm_defs sku_defs)

lemma test_vm_confidential:
  "VMParameters
     (testVM \<lparr> vm_OSDisk := premiumDisk (Some SecurityEncryptionTypeVMGuestStateOnly),
               vm_SecurityProfile :=
                 Some (securityProfile None SecurityTypesConfidentialVM
                         (Some (Some False, Some True))),
               vm_SKU := validSKUWithConfidentialComputingType \<rparr>) None
     = Inr (Some \<lparr> payload_Size = ''Standard_D2v3'', payload_EncryptionAtHost = None \<rparr>)"
  by (simp add: vm_defs sku_defs)

lemma test_vm_ultra_disk:
  "VMParameters
     (testVM \<lparr> vm_Location := ''test-location'', vm_Zone := ''1'',
               vm_DataDisks := [ultraDataDisk], vm_SKU := validSKUWithUltraSSD \<rparr>) None
     = Inr (Some \<lparr> payload_Size = ''Standard_D2v3'', payload_EncryptionAtHost = None \<rparr>)"
  by (simp add: vm_defs sku_defs)

section \<open>The virtual machine spec: conflict and violated precondition\<close>

text \<open>
  C7. For a spec with a non-empty provider ID and no observed machine,
  \<^verbatim>\<open>Parameters\<close> returns no payload but the conflict error that carries that provider
  ID: the machine is not recreated.
\<close>

theorem deleted_vm_not_recreated:
  assumes "vm_ProviderID s \<noteq> ''''"
  shows "VMParameters s None = Inl (VMDeletedError (vm_ProviderID s))"
  using assms by (simp add: VMParameters_def)

theorem deleted_vm_not_recreated_witness:
  "vm_ProviderID deletedVMSpec \<noteq> '''' \<and>
   VMParameters deletedVMSpec None = Inl (VMDeletedError ''fake/vm/id'')"
proof -
  have h: "vm_ProviderID deletedVMSpec \<noteq> ''''" by (simp add: deletedVMSpec_def)
  from deleted_vm_not_recreated [OF h] h show ?thesis by (simp add: deletedVMSpec_def)
qed




section \<open>The surge capacity\<close>

text \<open>
  C9, within the range of \<^verbatim>\<open>int64\<close>. When the sum of capacity and surge does not
  exceed the largest \<^verbatim>\<open>int64\<close>, the target capacity is at least the desired capacity:
  it is the desired capacity plus the surge when the surge is positive, the replicas
  are not managed externally, and the model changed or the scale set is not flexible
  and has not enough instances of the latest model; it is the desired capacity
  otherwise, also for a negative surge.
\<close>

theorem target_capacity_at_least_desired:
  assumes fits: "sint (Capacity s) + sint (MaxSurge s) < 2 ^ 63"
  shows "sint (Capacity s) \<le> sint (TargetCapacity s hasModelChanges hasEnoughLatestModel) \<and>
         sint (TargetCapacity s hasModelChanges hasEnoughLatestModel) =
           (if 0 < sint (MaxSurge s) \<and>
               (hasModelChanges \<or>
                (OrchestrationMode s \<noteq> FlexibleOrchestrationMode \<and> \<not> hasEnoughLatestModel)) \<and>
               \<not> HasReplicasExternallyManaged s
            then sint (Capacity s) + sint (MaxSurge s)
            else sint (Capacity s))"
proof (cases "0 < sint (MaxSurge s)")
  case True
  from sint_add_no_overflow [OF True fits] True show ?thesis
    by (auto simp: TargetCapacity_def Let_def word_sless_alt)
next
  case False
  then show ?thesis
    by (simp add: TargetCapacity_def Let_def word_sless_alt)
qed

theorem target_capacity_at_least_desired_witness:
  "sint (Capacity \<lparr> Capacity = 3, MaxSurge = 1, OrchestrationMode = ''Uniform'',
                    ShouldPatchCustomData = False, HasReplicasExternallyManaged = False \<rparr>) +
   sint (MaxSurge \<lparr> Capacity = 3, MaxSurge = 1, OrchestrationMode = ''Uniform'',
                    ShouldPatchCustomData = False, HasReplicasExternallyManaged = False \<rparr>)
     < 2 ^ 63 \<and>
   sint (TargetCapacity \<lparr> Capacity = 3, MaxSurge = 1, OrchestrationMode = ''Uniform'',
                          ShouldPatchCustomData = False,
                          HasReplicasExternallyManaged = False \<rparr> True True) = 4"
proof -
  let ?s = "\<lparr> Capacity = 3, MaxSurge = 1, OrchestrationMode = ''Uniform'',
              ShouldPatchCustomData = False, HasReplicasExternallyManaged = False \<rparr>"
  have fits: "sint (Capacity ?s) + sint (MaxSurge ?s) < 2 ^ 63" by simp
  from target_capacity_at_least_desired [OF fits, of True True] fits show ?thesis
    by simp
qed

text \<open>
  C9, as claimed, holds for every capacity and every surge. At the largest \<^verbatim>\<open>int64\<close>
  capacity a surge of one wraps around and the target is below the desired capacity;
  and for a surge of minus one the target is the desired capacity, not the sum.
\<close>

theorem target_capacity_counterexample:
  "sint (TargetCapacity \<lparr> Capacity = 2 ^ 63 - 1, MaxSurge = 1, OrchestrationMode = ''Uniform'',
                          ShouldPatchCustomData = False,
                          HasReplicasExternallyManaged = False \<rparr> True True)
     < sint (2 ^ 63 - 1 :: 64 word) \<and>
   TargetCapacity \<lparr> Capacity = 3, MaxSurge = - 1, OrchestrationMode = ''Uniform'',
                    ShouldPatchCustomData = False,
                    HasReplicasExternallyManaged = False \<rparr> True True \<noteq> 3 + (- 1)"
  by (simp add: TargetCapacity_def Let_def word_sless_alt FlexibleOrchestrationMode_def)

end
